theory Spec2Isabelle
  imports Main "HOL-Library.Word" "HOL-Library.Monad_Syntax"
begin

unbundle bit_operations_syntax

section \<open>Data model of \<^verbatim>\<open>bitwise_trie.hpp\<close>\<close>

text \<open>
  The index is instantiated for an LP64 target: item references and \<^verbatim>\<open>uintptr_t\<close> are
  64-bit words, \<^verbatim>\<open>key_type\<close> and the count type are \<^verbatim>\<open>size_t\<close> (64 bits, so the head
  has 64 child slots), and \<^verbatim>\<open>unsigned\<close> is 32 bits wide. The null reference is the
  word 0.
\<close>

type_synonym ptr = "64 word"
type_synonym key_type = "64 word"
type_synonym size_type = "64 word"

definition nullptr :: ptr where
  "nullptr = 0"

definition key_type_bits :: nat where
  "key_type_bits = 64"

text \<open>
  The housekeeping members the default accessors require of an item
  (\<^verbatim>\<open>trie_parent\<close>, \<^verbatim>\<open>trie_child[2]\<close>, \<^verbatim>\<open>trie_sibling[2]\<close>, \<^verbatim>\<open>trie_key\<close>) and of the head
  (\<^verbatim>\<open>trie_count\<close>, \<^verbatim>\<open>trie_children[]\<close>, \<^verbatim>\<open>trie_nobbledir\<close>). The two-element arrays are
  indexed by the \<^verbatim>\<open>bool\<close> the accessors take. The head has one more member,
  \<^verbatim>\<open>nobbledir\<close>: the documentation does not list it, but it is the member that
  \<^verbatim>\<open>flip_nobbledir\<close> assigns.
\<close>

record item =
  trie_parent :: ptr
  trie_child :: "bool \<Rightarrow> ptr"
  trie_sibling :: "bool \<Rightarrow> ptr"
  trie_key :: key_type

record head =
  trie_count :: size_type
  trie_children :: "nat \<Rightarrow> ptr"
  trie_nobbledir :: bool
  nobbledir :: bool

text \<open>
  Item storage belongs to the caller: a store maps every address to the housekeeping
  fields found there. Reading or writing through the null reference is undefined
  behaviour in the source; \<open>rd\<close> and \<open>wr\<close> give no result (\<open>None\<close>) for it.
\<close>

type_synonym store = "ptr \<Rightarrow> item"

definition rd :: "store \<Rightarrow> ptr \<Rightarrow> (item \<Rightarrow> 'a) \<Rightarrow> 'a option" where
  "rd st p f = (if p = nullptr then None else Some (f (st p)))"

definition wr :: "store \<Rightarrow> ptr \<Rightarrow> (item \<Rightarrow> item) \<Rightarrow> store option" where
  "wr st p g = (if p = nullptr then None else Some (st(p := g (st p))))"

subsection \<open>\<^verbatim>\<open>detail::bitscanr\<close>\<close>

text \<open>
  The GCC branch: \<^verbatim>\<open>sizeof(value) * CHAR_BIT - 1 - __builtin_clzl(value)\<close>, and 0 for the
  value 0. \<open>builtin_clzl_from n v\<close> counts the zero bits of \<open>v\<close> from bit \<open>n - 1\<close>
  downwards to the first set bit.
\<close>

fun builtin_clzl_from :: "nat \<Rightarrow> 64 word \<Rightarrow> nat" where
  "builtin_clzl_from 0 v = 0"
| "builtin_clzl_from (Suc n) v = (if bit v n then 0 else Suc (builtin_clzl_from n v))"

definition builtin_clzl :: "64 word \<Rightarrow> nat" where
  "builtin_clzl v = builtin_clzl_from 64 v"

definition bitscanr :: "64 word \<Rightarrow> nat" where
  "bitscanr v = (if v = 0 then 0 else 64 - 1 - builtin_clzl v)"

subsection \<open>\<^verbatim>\<open>bitwise_trie_item_accessors\<close>\<close>

text \<open>
  The accessors on one item. \<^verbatim>\<open>parent_is_index\<close> tests the two low bits of the parent
  reference, \<^verbatim>\<open>bit_index\<close> casts the reference to \<^verbatim>\<open>unsigned\<close> and shifts the tag out,
  \<^verbatim>\<open>set_parent_is_index\<close> widens its \<^verbatim>\<open>unsigned\<close> argument to \<^verbatim>\<open>uintptr_t\<close>, shifts it left by
  two and sets both tag bits. The \<^verbatim>\<open>assert\<close>s of the source are debugging aids and are not
  part of the model (an \<^verbatim>\<open>NDEBUG\<close> build).
\<close>

definition parent :: "item \<Rightarrow> ptr" where
  "parent v = trie_parent v"

definition set_parent :: "ptr \<Rightarrow> item \<Rightarrow> item" where
  "set_parent x v = v\<lparr>trie_parent := x\<rparr>"

definition parent_is_index :: "item \<Rightarrow> bool" where
  "parent_is_index v = (trie_parent v AND 3 = 3)"

definition bit_index :: "item \<Rightarrow> nat" where
  "bit_index v = unat (drop_bit 2 (ucast (trie_parent v) :: 32 word))"

definition set_parent_is_index :: "nat \<Rightarrow> item \<Rightarrow> item" where
  "set_parent_is_index bitidx v =
     v\<lparr>trie_parent := push_bit 2 (ucast (of_nat bitidx :: 32 word)) OR 3\<rparr>"

definition child :: "bool \<Rightarrow> item \<Rightarrow> ptr" where
  "child right v = trie_child v right"

definition set_child :: "bool \<Rightarrow> ptr \<Rightarrow> item \<Rightarrow> item" where
  "set_child right x v = v\<lparr>trie_child := (trie_child v)(right := x)\<rparr>"

definition sibling :: "bool \<Rightarrow> item \<Rightarrow> ptr" where
  "sibling right v = trie_sibling v right"

definition set_sibling :: "bool \<Rightarrow> ptr \<Rightarrow> item \<Rightarrow> item" where
  "set_sibling right x v = v\<lparr>trie_sibling := (trie_sibling v)(right := x)\<rparr>"

definition key :: "item \<Rightarrow> key_type" where
  "key v = trie_key v"

definition is_primary_sibling :: "item \<Rightarrow> bool" where
  "is_primary_sibling v = (trie_parent v \<noteq> nullptr)"

definition is_secondary_sibling :: "item \<Rightarrow> bool" where
  "is_secondary_sibling v = (trie_parent v = nullptr)"

definition set_is_secondary_sibling :: "item \<Rightarrow> item" where
  "set_is_secondary_sibling v = v\<lparr>trie_parent := nullptr\<rparr>"

definition fresh_item :: "key_type \<Rightarrow> item" where
  "fresh_item k = \<lparr>trie_parent = 0, trie_child = (\<lambda>_. 0), trie_sibling = (\<lambda>_. 0), trie_key = k\<rparr>"

subsection \<open>\<^verbatim>\<open>bitwise_trie_head_accessors\<close>\<close>

text \<open>
  The count wraps as a 64-bit unsigned value. \<^verbatim>\<open>flip_nobbledir\<close> is
  \<^verbatim>\<open>return (_v->nobbledir = !_v->trie_nobbledir)\<close>: it stores the negation of \<^verbatim>\<open>trie_nobbledir\<close>
  in the member \<^verbatim>\<open>nobbledir\<close> and returns it, and \<^verbatim>\<open>trie_nobbledir\<close> keeps its value.
  \<^verbatim>\<open>lock_branch\<close> and \<^verbatim>\<open>unlock_branch\<close> are no-ops by default and are left out; the
  \<^verbatim>\<open>rlink.key()\<close> read for the lock is kept where it is a dereference. The child slots
  are indexed by naturals; the engine reaches them with the result of \<^verbatim>\<open>bitscanr\<close>, with
  a loop counter below 64, or with the index an item's parent tag carries.
\<close>

definition head_size :: "head \<Rightarrow> size_type" where
  "head_size h = trie_count h"

definition incr_size :: "head \<Rightarrow> head" where
  "incr_size h = h\<lparr>trie_count := trie_count h + 1\<rparr>"

definition decr_size :: "head \<Rightarrow> head" where
  "decr_size h = h\<lparr>trie_count := trie_count h - 1\<rparr>"

definition set_size :: "size_type \<Rightarrow> head \<Rightarrow> head" where
  "set_size x h = h\<lparr>trie_count := x\<rparr>"

definition max_size :: "head \<Rightarrow> size_type" where
  "max_size h = - 1"

definition head_child :: "head \<Rightarrow> nat \<Rightarrow> ptr" where
  "head_child h idx = trie_children h idx"

definition head_set_child :: "nat \<Rightarrow> ptr \<Rightarrow> head \<Rightarrow> head" where
  "head_set_child idx x h = h\<lparr>trie_children := (trie_children h)(idx := x)\<rparr>"

definition flip_nobbledir :: "head \<Rightarrow> bool \<times> head" where
  "flip_nobbledir h = (\<not> trie_nobbledir h, h\<lparr>nobbledir := \<not> trie_nobbledir h\<rparr>)"

subsection \<open>Nobble direction\<close>

text \<open>
  \<^verbatim>\<open>nobble_direction\<close> normalises the template parameter to -1, 0 or 1; the call
  operator of \<^verbatim>\<open>nobble_function_implementation\<close> answers false for -1, true for 1 and
  \<^verbatim>\<open>flip_nobbledir()\<close> for 0.

  The body of \<^verbatim>\<open>bool _to_nobble()\<close> is the single expression statement
  \<^verbatim>\<open>detail::nobble_function_implementation<nobble_direction>(_head_accessors());\<close>. It
  makes a temporary of the functor type from the head accessors and does not apply the
  call operator, and there is no \<^verbatim>\<open>return\<close>: control flows off the end of a function that
  returns a value, which is undefined behaviour on every call. As for a null dereference,
  the model has no result then, whatever the direction and the head.
\<close>

definition nobble_direction :: "int \<Rightarrow> int" where
  "nobble_direction NobbleDir = (if NobbleDir < 0 then - 1 else if NobbleDir > 0 then 1 else 0)"

definition nobble_function_implementation :: "int \<Rightarrow> head \<Rightarrow> bool \<times> head" where
  "nobble_function_implementation Dir h =
     (if Dir = - 1 then (False, h) else if Dir = 1 then (True, h) else flip_nobbledir h)"

definition to_nobble :: "int \<Rightarrow> head \<Rightarrow> (bool \<times> head) option" where
  "to_nobble NobbleDir h = None"

subsection \<open>\<^verbatim>\<open>_triemin\<close> and the scan across head slots\<close>

text \<open>
  The loop \<^verbatim>\<open>for(; bitidx < _key_type_bits && nullptr == (node = head.child(bitidx)); bitidx++)\<close>
  shared by \<^verbatim>\<open>_triemin\<close> and \<^verbatim>\<open>_trienext\<close>: it returns the final \<^verbatim>\<open>bitidx\<close> and \<^verbatim>\<open>node\<close>.
\<close>

function scan_children_up :: "head \<Rightarrow> nat \<Rightarrow> ptr \<Rightarrow> nat \<times> ptr" where
  "scan_children_up h bitidx node =
     (if bitidx < key_type_bits
      then (if nullptr = head_child h bitidx
            then scan_children_up h (bitidx + 1) (head_child h bitidx)
            else (bitidx, head_child h bitidx))
      else (bitidx, node))"
  by pat_completeness auto
termination
  by (relation "measure (\<lambda>(h, bitidx, node). key_type_bits - bitidx)") auto

definition triemin :: "head \<Rightarrow> ptr" where
  "triemin h = (if 0 = head_size h then nullptr else snd (scan_children_up h 0 0))"

subsection \<open>\<^verbatim>\<open>_trieinsert\<close>\<close>

text \<open>
  The descent loop of \<^verbatim>\<open>_trieinsert\<close>. It has no bound of its own, so it is a partial
  function: \<open>None\<close> stands for a run that does not return (or dereferences null).
  The ill-formed test \<^verbatim>\<open>if(nullptr = nodelink.sibling(true))\<close> is read as the comparison
  \<^verbatim>\<open>nullptr == nodelink.sibling(true)\<close>, the form every other test of the file has.
\<close>

partial_function (option) trieinsert_loop ::
  "store \<Rightarrow> ptr \<Rightarrow> ptr \<Rightarrow> key_type \<Rightarrow> key_type \<Rightarrow> store option" where
  "trieinsert_loop st r node rkey keybit = do {
     nodekey \<leftarrow> rd st node key;
     if nodekey = rkey then do {
       st \<leftarrow> wr st r set_is_secondary_sibling;
       st \<leftarrow> wr st r (set_sibling True node);
       p \<leftarrow> rd st node (sibling False);
       st \<leftarrow> (if p \<noteq> nullptr then wr st r (set_sibling False p)
              else wr st r (set_sibling False node));
       st \<leftarrow> wr st node (set_sibling False r);
       s \<leftarrow> rd st node (sibling True);
       if nullptr = s then wr st node (set_sibling True r) else Some st
     } else do {
       let keybit = drop_bit 1 keybit;
       let keybitset = (rkey AND keybit \<noteq> 0);
       childnode \<leftarrow> rd st node (child keybitset);
       if nullptr = childnode then do {
         st \<leftarrow> wr st r (set_parent node);
         wr st node (set_child keybitset r)
       } else trieinsert_loop st r childnode rkey keybit
     }
   }"

definition trieinsert :: "head \<Rightarrow> store \<Rightarrow> ptr \<Rightarrow> (head \<times> store \<times> bool) option" where
  "trieinsert h st r =
     (if head_size h + 1 < head_size h then Some (h, st, False)
      else do {
        rkey \<leftarrow> rd st r key;
        st \<leftarrow> wr st r (set_parent nullptr);
        st \<leftarrow> wr st r (set_child False nullptr);
        st \<leftarrow> wr st r (set_child True nullptr);
        st \<leftarrow> wr st r (set_sibling False r);
        st \<leftarrow> wr st r (set_sibling True r);
        let bitidx = bitscanr rkey;
        let keybit = push_bit bitidx (1 :: key_type);
        let node = head_child h bitidx;
        if nullptr = node then do {
          st \<leftarrow> wr st r (set_parent_is_index bitidx);
          Some (incr_size (head_set_child bitidx r h), st, True)
        } else do {
          st \<leftarrow> trieinsert_loop st r node rkey keybit;
          Some (incr_size h, st, True)
        }
      })"

subsection \<open>\<^verbatim>\<open>trieremove\<close>\<close>

text \<open>
  The lambda \<^verbatim>\<open>set_parent\<close> of \<^verbatim>\<open>trieremove\<close>: it puts \<open>node\<close> where \<open>r\<close> hangs, under the
  head slot or under the parent of \<open>r\<close>.
\<close>

definition set_parent_lambda :: "head \<Rightarrow> store \<Rightarrow> ptr \<Rightarrow> ptr \<Rightarrow> (head \<times> store) option" where
  "set_parent_lambda h st r node = do {
     pi \<leftarrow> rd st r parent_is_index;
     if pi then do {
       bitidx \<leftarrow> rd st r bit_index;
       let h = head_set_child bitidx node h;
       st \<leftarrow> wr st node (set_parent_is_index bitidx);
       Some (h, st)
     } else do {
       rp \<leftarrow> rd st r parent;
       c \<leftarrow> rd st rp (child False);
       st \<leftarrow> (if c = r then wr st rp (set_child False node)
              else wr st rp (set_child True node));
       rp \<leftarrow> rd st r parent;
       st \<leftarrow> wr st node (set_parent rp);
       Some (h, st)
     }
   }"

text \<open>The search for a childless descendant, preferring the nobble direction (the
  local \<^verbatim>\<open>nobbledir\<close> of the source is \<open>dir\<close> here).\<close>

partial_function (option) nobble_descend ::
  "store \<Rightarrow> bool \<Rightarrow> ptr \<Rightarrow> bool \<Rightarrow> (ptr \<times> bool) option" where
  "nobble_descend st dir childnode parentchildidx = do {
     c \<leftarrow> rd st childnode (child dir);
     if nullptr \<noteq> c then nobble_descend st dir c dir
     else do {
       c \<leftarrow> rd st childnode (child (\<not> dir));
       if nullptr \<noteq> c then nobble_descend st dir c (\<not> dir)
       else Some (childnode, parentchildidx)
     }
   }"

text \<open>Unlinking \<open>r\<close> from its sibling ring, as both ring cases of \<^verbatim>\<open>trieremove\<close> do;
  the result carries the last \<^verbatim>\<open>node\<close>, the next sibling of \<open>r\<close>.\<close>

definition ring_unlink :: "store \<Rightarrow> ptr \<Rightarrow> (store \<times> ptr) option" where
  "ring_unlink st r = do {
     node \<leftarrow> rd st r (sibling False);
     s \<leftarrow> rd st r (sibling True);
     st \<leftarrow> wr st node (set_sibling True s);
     node \<leftarrow> rd st r (sibling True);
     s \<leftarrow> rd st r (sibling False);
     st \<leftarrow> wr st node (set_sibling False s);
     Some (st, node)
   }"

definition trieremove :: "int \<Rightarrow> head \<Rightarrow> store \<Rightarrow> ptr \<Rightarrow> (head \<times> store) option" where
  "trieremove NobbleDir h st r = do {
     _ \<leftarrow> rd st r key;
     secondary \<leftarrow> rd st r is_secondary_sibling;
     if secondary then do {
       (st, node) \<leftarrow> ring_unlink st r;
       Some (decr_size h, st)
     } else do {
       s \<leftarrow> rd st r (sibling True);
       if s \<noteq> r then do {
         (st, node) \<leftarrow> ring_unlink st r;
         (h, st) \<leftarrow> set_parent_lambda h st r node;
         Some (decr_size h, st)
       } else do {
         c0 \<leftarrow> rd st r (child False);
         c1 \<leftarrow> rd st r (child True);
         if nullptr = c0 \<and> nullptr = c1 then do {
           pi \<leftarrow> rd st r parent_is_index;
           if pi then do {
             bitidx \<leftarrow> rd st r bit_index;
             Some (decr_size (head_set_child bitidx nullptr h), st)
           } else do {
             rp \<leftarrow> rd st r parent;
             c \<leftarrow> rd st rp (child False);
             st \<leftarrow> (if c = r then wr st rp (set_child False nullptr)
                    else wr st rp (set_child True nullptr));
             Some (decr_size h, st)
           }
         } else do {
           (dir, h) \<leftarrow> to_nobble NobbleDir h;
           c \<leftarrow> rd st r (child dir);
           c' \<leftarrow> rd st r (child (\<not> dir));
           (childnode, parentchildidx) \<leftarrow>
             nobble_descend st dir (if c \<noteq> nullptr then c else c')
               (if c \<noteq> nullptr then dir else \<not> dir);
           cp \<leftarrow> rd st childnode parent;
           st \<leftarrow> wr st cp (set_child parentchildidx nullptr);
           let node = childnode;
           rc \<leftarrow> rd st r (child False);
           st \<leftarrow> (if nullptr \<noteq> rc then do {
                    st \<leftarrow> wr st node (set_child False rc);
                    wr st rc (set_parent node)
                  } else Some st);
           rc \<leftarrow> rd st r (child True);
           st \<leftarrow> (if nullptr \<noteq> rc then do {
                    st \<leftarrow> wr st node (set_child True rc);
                    wr st rc (set_parent node)
                  } else Some st);
           (h, st) \<leftarrow> set_parent_lambda h st r node;
           Some (decr_size h, st)
         }
       }
     }
   }"

subsection \<open>\<^verbatim>\<open>_triebranchnext\<close> and \<^verbatim>\<open>_trienext\<close>\<close>

text \<open>The loop \<^verbatim>\<open>while(!rlink.is_primary_sibling())\<close>: from the last ring member back to
  the node in the tree.\<close>

partial_function (option) back_to_tree_node :: "store \<Rightarrow> ptr \<Rightarrow> ptr option" where
  "back_to_tree_node st r = do {
     primary \<leftarrow> rd st r is_primary_sibling;
     if primary then Some r
     else do {
       s \<leftarrow> rd st r (sibling True);
       back_to_tree_node st s
     }
   }"

text \<open>The loop \<^verbatim>\<open>while(!rlink.parent_is_index())\<close>: up through the parents to the next
  unvisited \<^verbatim>\<open>child[1]\<close>. The result is the node found (null at the top of the branch)
  and the last \<open>r\<close>.\<close>

partial_function (option) trace_up_next :: "store \<Rightarrow> ptr \<Rightarrow> (ptr \<times> ptr) option" where
  "trace_up_next st r = do {
     pi \<leftarrow> rd st r parent_is_index;
     if pi then Some (nullptr, r)
     else do {
       node \<leftarrow> rd st r parent;
       c0 \<leftarrow> rd st node (child False);
       c1 \<leftarrow> rd st node (child True);
       if c0 = r \<and> c1 \<noteq> nullptr then Some (c1, r)
       else trace_up_next st node
     }
   }"

text \<open>
  \<^verbatim>\<open>_triebranchnext(r, &rlink)\<close> returns the next item of the branch, or null together
  with the item at the top of the branch (what the source stores through \<^verbatim>\<open>rlinkaddr\<close>).
  The first test compares the next sibling with \<^verbatim>\<open>node\<close>, which is null at that point.
\<close>

definition triebranchnext :: "store \<Rightarrow> ptr \<Rightarrow> (ptr \<times> ptr) option" where
  "triebranchnext st r = do {
     s \<leftarrow> rd st r (sibling True);
     leaf \<leftarrow> (if s \<noteq> nullptr then rd st s (\<lambda>v. \<not> is_primary_sibling v) else Some False);
     if leaf then Some (s, nullptr)
     else do {
       r \<leftarrow> back_to_tree_node st r;
       c0 \<leftarrow> rd st r (child False);
       c1 \<leftarrow> rd st r (child True);
       let node = (if c0 \<noteq> nullptr then c0 else c1);
       if nullptr \<noteq> node then Some (node, nullptr)
       else trace_up_next st r
     }
   }"

definition trienext :: "head \<Rightarrow> store \<Rightarrow> ptr \<Rightarrow> ptr option" where
  "trienext h st r = do {
     _ \<leftarrow> rd st r key;
     (node, toplink) \<leftarrow> triebranchnext st r;
     if node \<noteq> nullptr then Some node
     else do {
       bitidx \<leftarrow> rd st toplink bit_index;
       let (bitidx, node) = scan_children_up h (bitidx + 1) node;
       if bitidx \<ge> key_type_bits then Some nullptr else Some node
     }
   }"

subsection \<open>Iterators and the public operations\<close>

text \<open>
  An iterator of the index at hand is its item reference \<^verbatim>\<open>_p\<close>; \<^verbatim>\<open>end()\<close> is the
  iterator holding null.
\<close>

definition iterator_inc :: "head \<Rightarrow> store \<Rightarrow> ptr \<Rightarrow> ptr option" where
  "iterator_inc h st p = (if p \<noteq> nullptr then trienext h st p else Some p)"

definition bitwise_trie_begin :: "head \<Rightarrow> ptr" where
  "bitwise_trie_begin h = triemin h"

definition bitwise_trie_end :: ptr where
  "bitwise_trie_end = nullptr"

text \<open>The items yielded by \<^verbatim>\<open>for(it = begin(); it != end(); ++it)\<close>.\<close>

partial_function (option) traverse_from :: "head \<Rightarrow> store \<Rightarrow> ptr \<Rightarrow> ptr list option" where
  "traverse_from h st p =
     (if p = bitwise_trie_end then Some []
      else do {
        n \<leftarrow> iterator_inc h st p;
        rest \<leftarrow> traverse_from h st n;
        Some (p # rest)
      })"

definition forward_traversal :: "head \<Rightarrow> store \<Rightarrow> ptr list option" where
  "forward_traversal h st = traverse_from h st (bitwise_trie_begin h)"

text \<open>The forward traversal restricted to one head-array branch: the items that
  \<^verbatim>\<open>_triebranchnext\<close> yields from an item on, up to the end of the branch.\<close>

partial_function (option) branch_from :: "store \<Rightarrow> ptr \<Rightarrow> ptr list option" where
  "branch_from st p =
     (if p = nullptr then Some []
      else do {
        (n, toplink) \<leftarrow> triebranchnext st p;
        rest \<leftarrow> branch_from st n;
        Some (p # rest)
      })"

definition bitwise_trie_size :: "head \<Rightarrow> size_type" where
  "bitwise_trie_size h = head_size h"

definition bitwise_trie_empty :: "head \<Rightarrow> bool" where
  "bitwise_trie_empty h = (bitwise_trie_size h = 0)"

definition bitwise_trie_max_size :: "head \<Rightarrow> size_type" where
  "bitwise_trie_max_size h = max_size h"

definition bitwise_trie_clear :: "head \<Rightarrow> store \<Rightarrow> head \<times> store" where
  "bitwise_trie_clear h st =
     (set_size 0 (fold (\<lambda>n. head_set_child n nullptr) [0..<key_type_bits] h), st)"

text \<open>The copy constructor and the copy assignment have the same body; \<open>my\<close> is the
  head being written (of any content for the constructor), \<open>other\<close> the head copied.\<close>

definition bitwise_trie_copy :: "head \<Rightarrow> head \<Rightarrow> store \<Rightarrow> head \<times> store" where
  "bitwise_trie_copy my other st =
     (set_size (head_size other)
        (fold (\<lambda>n. head_set_child n (head_child other n)) [0..<key_type_bits] my), st)"

definition bitwise_trie_insert :: "head \<Rightarrow> store \<Rightarrow> ptr \<Rightarrow> (head \<times> store \<times> ptr) option" where
  "bitwise_trie_insert h st p =
     (if bitwise_trie_size h < bitwise_trie_max_size h
      then do {
        (h', st', ok) \<leftarrow> trieinsert h st p;
        if ok then Some (h', st', p) else Some (h', st', bitwise_trie_end)
      }
      else Some (h, st, bitwise_trie_end))"

text \<open>
  \<^verbatim>\<open>erase(const_iterator)\<close> copies the iterator, increments the copy, removes the item and
  returns its argument. The source calls \<^verbatim>\<open>_trieremove\<close>; the removal it defines is
  \<^verbatim>\<open>trieremove\<close>.
\<close>

definition bitwise_trie_erase :: "int \<Rightarrow> head \<Rightarrow> store \<Rightarrow> ptr \<Rightarrow> (head \<times> store \<times> ptr) option" where
  "bitwise_trie_erase NobbleDir h st it = do {
     ret \<leftarrow> iterator_inc h st it;
     (h, st) \<leftarrow> trieremove NobbleDir h st it;
     Some (h, st, it)
   }"

subsection \<open>The find family\<close>

text \<open>
  Modelled from the spec: \<^verbatim>\<open>_triefind\<close>, which \<^verbatim>\<open>find\<close>, \<^verbatim>\<open>count\<close> and \<^verbatim>\<open>contains\<close> call, is
  not defined in the source. Exact find descends by successive key bits from the head
  slot of the key (the descent of \<^verbatim>\<open>_trieinsert\<close>), returns the node whose key matches, and
  returns not-found when a required child is absent.
\<close>

partial_function (option) triefind_loop ::
  "store \<Rightarrow> ptr \<Rightarrow> key_type \<Rightarrow> key_type \<Rightarrow> ptr option" where
  "triefind_loop st node rkey keybit = do {
     nodekey \<leftarrow> rd st node key;
     if nodekey = rkey then Some node
     else do {
       let keybit = drop_bit 1 keybit;
       childnode \<leftarrow> rd st node (child (rkey AND keybit \<noteq> 0));
       if nullptr = childnode then Some nullptr
       else triefind_loop st childnode rkey keybit
     }
   }"

definition triefind :: "head \<Rightarrow> store \<Rightarrow> key_type \<Rightarrow> ptr option" where
  "triefind h st rkey =
     (if nullptr = head_child h (bitscanr rkey) then Some nullptr
      else triefind_loop st (head_child h (bitscanr rkey)) rkey (push_bit (bitscanr rkey) 1))"

definition bitwise_trie_find :: "head \<Rightarrow> store \<Rightarrow> key_type \<Rightarrow> ptr option" where
  "bitwise_trie_find h st k = do {
     p \<leftarrow> triefind h st k;
     if p \<noteq> nullptr then Some p else Some bitwise_trie_end
   }"

definition bitwise_trie_erase_key ::
  "int \<Rightarrow> head \<Rightarrow> store \<Rightarrow> key_type \<Rightarrow> (head \<times> store \<times> ptr) option" where
  "bitwise_trie_erase_key NobbleDir h st k = do {
     it \<leftarrow> bitwise_trie_find h st k;
     bitwise_trie_erase NobbleDir h st it
   }"

partial_function (option) count_loop ::
  "store \<Rightarrow> ptr \<Rightarrow> ptr \<Rightarrow> size_type \<Rightarrow> size_type option" where
  "count_loop st p i ret =
     (if i \<noteq> p then do {
        s \<leftarrow> rd st i (sibling True);
        count_loop st p s (ret + 1)
      } else Some ret)"

definition bitwise_trie_count :: "head \<Rightarrow> store \<Rightarrow> key_type \<Rightarrow> size_type option" where
  "bitwise_trie_count h st k = do {
     p \<leftarrow> triefind h st k;
     if p \<noteq> nullptr then do {
       i \<leftarrow> rd st p (sibling True);
       count_loop st p i 1
     } else Some 0
   }"

text \<open>
  Modelled from the spec: \<^verbatim>\<open>_triecfind\<close>, which \<^verbatim>\<open>close_find\<close> calls as
  \<^verbatim>\<open>_triecfind(k, rounds)\<close> and \<^verbatim>\<open>nearest_find\<close> as \<^verbatim>\<open>_triecfind(k, (size_t)-1)\<close>, is not
  defined in the source. The spec describes it as the descent of exact find from the head
  that stops after at most \<open>rounds\<close> bit levels (a key has \<open>key_type_bits\<close> of them) and
  returns the best candidate found with a key of at least \<open>k\<close>, for nearest find the item
  with the smallest such key. It does not give the steps of the descent, so the model
  takes the widest descent those words allow: every item within \<open>rounds\<close> child links
  below a head slot, from the slot of \<open>k\<close> upwards, is a candidate, and the result is a
  candidate whose key is the smallest that is at least \<open>k\<close> (of equal keys the first
  one met), or null when there is none. No narrower descent from the head reaches an
  item that this one does not.
\<close>

fun items_below :: "nat \<Rightarrow> store \<Rightarrow> ptr \<Rightarrow> ptr list" where
  "items_below 0 st node = (if nullptr = node then [] else [node])"
| "items_below (Suc rounds) st node =
     (if nullptr = node then []
      else node # items_below rounds st (child False (st node))
             @ items_below rounds st (child True (st node)))"

definition triecfind :: "head \<Rightarrow> store \<Rightarrow> key_type \<Rightarrow> 64 word \<Rightarrow> ptr" where
  "triecfind h st rkey rounds =
     (let candidates = concat (map
            (\<lambda>bitidx. items_below (min (unat rounds) key_type_bits) st (head_child h bitidx))
            [bitscanr rkey..<key_type_bits]);
          fits = filter (\<lambda>p. rkey \<le> key (st p)) candidates
      in if fits = [] then nullptr else arg_min_list (\<lambda>p. key (st p)) fits)"

text \<open>\<^verbatim>\<open>close_find\<close> and \<^verbatim>\<open>nearest_find\<close> wrap the result in an iterator, \<^verbatim>\<open>end()\<close> for
  null; \<^verbatim>\<open>nearest_find\<close> passes \<^verbatim>\<open>(size_t)-1\<close> for \<^verbatim>\<open>rounds\<close>.\<close>

definition bitwise_trie_close_find :: "head \<Rightarrow> store \<Rightarrow> key_type \<Rightarrow> 64 word \<Rightarrow> ptr" where
  "bitwise_trie_close_find h st k rounds =
     (let p = triecfind h st k rounds in if p \<noteq> nullptr then p else bitwise_trie_end)"

definition bitwise_trie_nearest_find :: "head \<Rightarrow> store \<Rightarrow> key_type \<Rightarrow> ptr" where
  "bitwise_trie_nearest_find h st k =
     (let p = triecfind h st k (- 1) in if p \<noteq> nullptr then p else bitwise_trie_end)"

subsection \<open>Well-formed branches\<close>

text \<open>
  The shape of the trie below one head slot: which item is the node, and the shapes
  below its \<^verbatim>\<open>child[0]\<close> and \<^verbatim>\<open>child[1]\<close>. \<open>preorder\<close> lists a node, then its \<^verbatim>\<open>child[0]\<close>
  subtree, then its \<^verbatim>\<open>child[1]\<close> subtree.
\<close>

datatype shape = Leaf | Node ptr shape shape

fun root :: "shape \<Rightarrow> ptr" where
  "root Leaf = nullptr"
| "root (Node p l r) = p"

fun preorder :: "shape \<Rightarrow> ptr list" where
  "preorder Leaf = []"
| "preorder (Node p l r) = p # preorder l @ preorder r"

text \<open>
  \<open>shape_at st par t\<close>: the links of the store form the shape \<open>t\<close> below an item whose
  parent field is \<open>par\<close>. Every node is a non-null, 4-byte aligned item whose parent
  field is its parent (the head-slot tag at the top), whose child fields are the roots
  of its subtrees, and which is alone in its sibling ring.
\<close>

fun shape_at :: "store \<Rightarrow> ptr \<Rightarrow> shape \<Rightarrow> bool" where
  "shape_at st par Leaf = True"
| "shape_at st par (Node p l r) =
     (p \<noteq> nullptr \<and> p AND 3 = 0 \<and> parent (st p) = par \<and> sibling True (st p) = p
      \<and> child False (st p) = root l \<and> child True (st p) = root r
      \<and> shape_at st p l \<and> shape_at st p r)"

text \<open>
  \<open>keys_ok st m t\<close>: the keys sit where the descent of \<^verbatim>\<open>_trieinsert\<close> puts them. At a
  node whose children are selected by key bit \<open>m - 1\<close>, every item of the \<^verbatim>\<open>child[0]\<close>
  subtree has the key bits of the node from bit \<open>m\<close> up and bit \<open>m - 1\<close> clear, every item
  of the \<^verbatim>\<open>child[1]\<close> subtree has them and bit \<open>m - 1\<close> set; a node with no key bit left
  (\<open>m = 0\<close>) has no children. At the node in head slot \<open>b\<close>, \<open>m\<close> is \<open>b\<close>.
\<close>

fun keys_ok :: "store \<Rightarrow> nat \<Rightarrow> shape \<Rightarrow> bool" where
  "keys_ok st m Leaf = True"
| "keys_ok st m (Node p l r) =
     (case m of
        0 \<Rightarrow> l = Leaf \<and> r = Leaf
      | Suc m' \<Rightarrow>
          list_all (\<lambda>x. drop_bit m (key (st x)) = drop_bit m (key (st p))
                       \<and> \<not> bit (key (st x)) m') (preorder l)
          \<and> list_all (\<lambda>y. drop_bit m (key (st y)) = drop_bit m (key (st p))
                       \<and> bit (key (st y)) m') (preorder r)
          \<and> keys_ok st m' l \<and> keys_ok st m' r)"

text \<open>\<open>subtrees_ordered\<close>: at every node, each key of the \<^verbatim>\<open>child[0]\<close> subtree is smaller
  than each key of the \<^verbatim>\<open>child[1]\<close> subtree.\<close>

fun subtrees_ordered :: "store \<Rightarrow> shape \<Rightarrow> bool" where
  "subtrees_ordered st Leaf = True"
| "subtrees_ordered st (Node p l r) =
     (list_all (\<lambda>x. list_all (\<lambda>y. key (st x) < key (st y)) (preorder r)) (preorder l)
      \<and> subtrees_ordered st l \<and> subtrees_ordered st r)"

subsection \<open>Sound links\<close>

text \<open>
  The links among a set \<open>A\<close> of items are sound when no reference the engine follows
  from an item of \<open>A\<close> is null or leaves \<open>A\<close>, the nodes of the tree are primary
  siblings, and the chains of child links, of parent links and of next-sibling links from
  a secondary sibling are finite (each has a measure that decreases along the link).
\<close>

definition links_ok :: "ptr set \<Rightarrow> store \<Rightarrow> bool" where
  "links_ok A st \<longleftrightarrow>
     nullptr \<notin> A
     \<and> (\<forall>p \<in> A. \<forall>right. sibling right (st p) \<in> A)
     \<and> (\<forall>p \<in> A. \<forall>right. child right (st p) \<noteq> nullptr \<longrightarrow>
           child right (st p) \<in> A \<and> is_primary_sibling (st (child right (st p))))
     \<and> (\<forall>p \<in> A. is_primary_sibling (st p) \<and> \<not> parent_is_index (st p) \<longrightarrow>
           parent (st p) \<in> A \<and> is_primary_sibling (st (parent (st p))))
     \<and> (\<exists>height :: ptr \<Rightarrow> nat. \<forall>p \<in> A. \<forall>right. child right (st p) \<noteq> nullptr \<longrightarrow>
           height (child right (st p)) < height p)
     \<and> (\<exists>depth :: ptr \<Rightarrow> nat. \<forall>p \<in> A. is_primary_sibling (st p) \<and> \<not> parent_is_index (st p) \<longrightarrow>
           depth (parent (st p)) < depth p)
     \<and> (\<exists>ring :: ptr \<Rightarrow> nat. \<forall>p \<in> A. is_secondary_sibling (st p) \<longrightarrow>
           ring (sibling True (st p)) < ring p)"

subsection \<open>Concrete states and runs\<close>

text \<open>An empty head, a head whose count has reached its maximum, and a store whose
  items at the listed addresses carry the listed keys and have their housekeeping fields
  unset.\<close>

definition empty_head :: head where
  "empty_head = \<lparr>trie_count = 0, trie_children = (\<lambda>_. 0), trie_nobbledir = False,
     nobbledir = False\<rparr>"

definition full_head :: head where
  "full_head = \<lparr>trie_count = - 1, trie_children = (\<lambda>_. 0), trie_nobbledir = False,
     nobbledir = False\<rparr>"

definition keyed_store :: "(ptr \<times> key_type) list \<Rightarrow> store" where
  "keyed_store kvs = (\<lambda>p. fresh_item (case map_of kvs p of Some k \<Rightarrow> k | None \<Rightarrow> 0))"

text \<open>
  The index after inserting the item at address 16 with key 6 and then the item at
  address 32 with key 4: item 16 hangs from head slot 2 (its parent is the tag
  \<open>2 * 4 + 3\<close>), item 32 is its \<^verbatim>\<open>child[0]\<close>.
\<close>

definition two_item_head :: head where
  "two_item_head = \<lparr>trie_count = 2, trie_children = (\<lambda>n. if n = 2 then 16 else 0),
     trie_nobbledir = False, nobbledir = False\<rparr>"

definition two_item_store :: store where
  "two_item_store = (keyed_store [(16, 6), (32, 4)])
     (16 := \<lparr>trie_parent = 11, trie_child = (\<lambda>right. if right then 0 else 32),
              trie_sibling = (\<lambda>_. 16), trie_key = 6\<rparr>,
      32 := \<lparr>trie_parent = 16, trie_child = (\<lambda>_. 0),
              trie_sibling = (\<lambda>_. 32), trie_key = 4\<rparr>)"

text \<open>
  The index after inserting the items at 16, 32 and 48 with the keys 6, 4 and 7: item 16
  hangs from head slot 2, item 32 is its \<^verbatim>\<open>child[0]\<close> and item 48 its \<^verbatim>\<open>child[1]\<close>.
\<close>

definition three_item_head :: head where
  "three_item_head = \<lparr>trie_count = 3, trie_children = (\<lambda>n. if n = 2 then 16 else 0),
     trie_nobbledir = False, nobbledir = False\<rparr>"

definition three_item_store :: store where
  "three_item_store = (keyed_store [(16, 6), (32, 4), (48, 7)])
     (16 := \<lparr>trie_parent = 11, trie_child = (\<lambda>right. if right then 48 else 32),
              trie_sibling = (\<lambda>_. 16), trie_key = 6\<rparr>,
      32 := \<lparr>trie_parent = 16, trie_child = (\<lambda>_. 0),
              trie_sibling = (\<lambda>_. 32), trie_key = 4\<rparr>,
      48 := \<lparr>trie_parent = 16, trie_child = (\<lambda>_. 0),
              trie_sibling = (\<lambda>_. 48), trie_key = 7\<rparr>)"

definition three_item_shape :: shape where
  "three_item_shape = Node 16 (Node 32 Leaf Leaf) (Node 48 Leaf Leaf)"

text \<open>
  A caller's operations: \<open>Insert p k\<close> writes the key \<open>k\<close> into the item at \<open>p\<close> and
  inserts it, \<open>Erase p\<close> erases through an iterator to the item at \<open>p\<close>.
\<close>

datatype op = Insert ptr key_type | Erase ptr

fun run_ops :: "int \<Rightarrow> head \<Rightarrow> store \<Rightarrow> op list \<Rightarrow> (head \<times> store) option" where
  "run_ops NobbleDir h st [] = Some (h, st)"
| "run_ops NobbleDir h st (Insert p k # ops) = do {
     (h, st, it) \<leftarrow> bitwise_trie_insert h (st(p := (st p)\<lparr>trie_key := k\<rparr>)) p;
     run_ops NobbleDir h st ops
   }"
| "run_ops NobbleDir h st (Erase p # ops) = do {
     (h, st, it) \<leftarrow> bitwise_trie_erase NobbleDir h st p;
     run_ops NobbleDir h st ops
   }"

text \<open>What a caller observes of a state: the size, the keys of the forward traversal,
  and the keys of the traversal that lie in one head-array branch.\<close>

definition traversal_keys :: "head \<Rightarrow> store \<Rightarrow> key_type list option" where
  "traversal_keys h st = map_option (map (\<lambda>p. key (st p))) (forward_traversal h st)"

definition branch_keys :: "nat \<Rightarrow> head \<Rightarrow> store \<Rightarrow> key_type list option" where
  "branch_keys b h st = map_option (filter (\<lambda>k. bitscanr k = b)) (traversal_keys h st)"

definition after_ops :: "int \<Rightarrow> op list \<Rightarrow> (head \<Rightarrow> store \<Rightarrow> 'a option) \<Rightarrow> 'a option" where
  "after_ops NobbleDir ops f = do {
     (h, st) \<leftarrow> run_ops NobbleDir empty_head (keyed_store []) ops;
     f h st
   }"

section \<open>Evaluating the model on concrete states\<close>

text \<open>
  Concrete runs are evaluated by the simplifier. The congruence rule makes it evaluate
  the first argument of a bind before it looks at the continuation.
\<close>

declare scan_children_up.simps [simp del]

lemma bind_eval_cong: "m = m' \<Longrightarrow> Option.bind m f = Option.bind m' f"
  by simp

lemma max_size_numeral: "max_size h = 18446744073709551615"
  by (simp add: max_size_def)

lemma bitscanr_1: "bitscanr 1 = 0" by code_simp
lemma bitscanr_2: "bitscanr 2 = 1" by code_simp
lemma bitscanr_3: "bitscanr 3 = 1" by code_simp
lemma bitscanr_4: "bitscanr 4 = 2" by code_simp
lemma bitscanr_5: "bitscanr 5 = 2" by code_simp
lemma bitscanr_6: "bitscanr 6 = 2" by code_simp
lemma bitscanr_7: "bitscanr 7 = 2" by code_simp
lemma bitscanr_8: "bitscanr 8 = 3" by code_simp
lemma bitscanr_9: "bitscanr 9 = 3" by code_simp

lemmas bitscanr_values = bitscanr_3 bitscanr_4 bitscanr_5 bitscanr_6 bitscanr_9

lemmas model_defs =
  max_size_numeral rd_def wr_def nullptr_def key_type_bits_def
  parent_def set_parent_def parent_is_index_def bit_index_def set_parent_is_index_def
  child_def set_child_def sibling_def set_sibling_def key_def
  is_primary_sibling_def is_secondary_sibling_def set_is_secondary_sibling_def
  fresh_item_def head_size_def incr_size_def decr_size_def set_size_def
  head_child_def head_set_child_def flip_nobbledir_def nobble_direction_def
  nobble_function_implementation_def to_nobble_def triemin_def
  trieinsert_def set_parent_lambda_def ring_unlink_def trieremove_def
  triebranchnext_def trienext_def iterator_inc_def bitwise_trie_begin_def bitwise_trie_end_def
  forward_traversal_def bitwise_trie_size_def bitwise_trie_empty_def bitwise_trie_max_size_def
  bitwise_trie_clear_def bitwise_trie_copy_def bitwise_trie_insert_def bitwise_trie_erase_def
  triefind_def bitwise_trie_find_def bitwise_trie_erase_key_def bitwise_trie_count_def
  bitwise_trie_close_find_def bitwise_trie_nearest_find_def
  empty_head_def full_head_def keyed_store_def two_item_head_def two_item_store_def
  three_item_head_def three_item_store_def
  traversal_keys_def branch_keys_def after_ops_def
  trieinsert_loop.simps nobble_descend.simps back_to_tree_node.simps trace_up_next.simps
  traverse_from.simps triefind_loop.simps count_loop.simps scan_children_up.simps
  bitscanr_7 bitscanr_values

text \<open>The states \<open>two_item_head\<close>, \<open>two_item_store\<close> and \<open>three_item_head\<close>,
  \<open>three_item_store\<close> are the ones the inserts produce.\<close>

lemma three_item_state:
  "run_ops 0 empty_head (keyed_store [(16, 6), (32, 4), (48, 7)])
     [Insert 16 6, Insert 32 4, Insert 48 7] = Some (three_item_head, three_item_store)"
  by (simp add: model_defs fun_eq_iff cong: bind_eval_cong)

lemma two_item_state:
  "run_ops 0 empty_head (keyed_store [(16, 6), (32, 4)]) [Insert 16 6, Insert 32 4]
     = Some (two_item_head, two_item_store)"
  by (simp add: model_defs fun_eq_iff cong: bind_eval_cong)

lemma no_wrap: "(c :: 64 word) < - 1 \<Longrightarrow> \<not> (c + 1 < c)"
  by unat_arith

lemma back_to_tree_node_primary:
  "p \<noteq> nullptr \<Longrightarrow> is_primary_sibling (st p) \<Longrightarrow> back_to_tree_node st p = Some p"
  by (subst back_to_tree_node.simps) (simp add: rd_def)

section \<open>The tagged parent encoding\<close>

lemma tag_low_bits: "(push_bit 2 (w :: 64 word) OR 3) AND 3 = 3"
  by (rule bit_eqI) (auto simp: bit_simps)

lemma tag_unsigned_shift:
  assumes "b < 64"
  shows "unat (drop_bit 2 (ucast (push_bit 2 (ucast (of_nat b :: 32 word) :: 64 word) OR 3) :: 32 word)) = b"
proof -
  have small: "b < 2 ^ 30" using assms by simp
  have "drop_bit 2 (ucast (push_bit 2 (ucast (of_nat b :: 32 word) :: 64 word) OR 3) :: 32 word)
        = (of_nat b :: 32 word)"
  proof (rule bit_eqI)
    fix n
    assume n: "possible_bit TYPE(32 word) n"
    have hi: "m < 30" if "bit b m" for m
    proof (rule ccontr)
      assume "\<not> m < 30"
      then have "(2::nat) ^ 30 \<le> 2 ^ m"
        by (intro power_increasing) simp_all
      with small have "b < 2 ^ m" by linarith
      with that show False by (simp add: bit_iff_odd)
    qed
    show "bit (drop_bit 2 (ucast (push_bit 2 (ucast (of_nat b :: 32 word) :: 64 word) OR 3) :: 32 word)) n
          = bit (of_nat b :: 32 word) n"
      using n by (auto simp: bit_simps dest: hi)
  qed
  moreover have "unat (of_nat b :: 32 word) = b"
    using small by (simp add: unat_of_nat)
  ultimately show ?thesis by simp
qed

text \<open>
  C7. The tagged parent encoding round-trips. For every bit index \<open>b\<close> below the key
  bit-width, after \<^verbatim>\<open>set_parent_is_index(b)\<close> the item reports \<^verbatim>\<open>parent_is_index()\<close> and
  \<^verbatim>\<open>bit_index()\<close> is \<open>b\<close>; after \<^verbatim>\<open>set_parent(p)\<close> with a non-null reference \<open>p\<close> that is
  4-byte aligned (its two low bits are clear), \<^verbatim>\<open>parent_is_index()\<close> is false and
  \<^verbatim>\<open>parent()\<close> is \<open>p\<close>.
\<close>

theorem tagged_parent_roundtrip:
  "(b < key_type_bits \<longrightarrow>
      parent_is_index (set_parent_is_index b v) \<and> bit_index (set_parent_is_index b v) = b)
   \<and> (p \<noteq> nullptr \<and> p AND 3 = 0 \<longrightarrow>
      \<not> parent_is_index (set_parent p v) \<and> parent (set_parent p v) = p)"
  by (auto simp: parent_is_index_def set_parent_is_index_def bit_index_def set_parent_def
      parent_def key_type_bits_def tag_low_bits tag_unsigned_shift)

theorem tagged_parent_roundtrip_witness:
  "(5::nat) < key_type_bits \<and> parent_is_index (set_parent_is_index 5 (fresh_item 7))
   \<and> bit_index (set_parent_is_index 5 (fresh_item 7)) = 5
   \<and> (16 :: ptr) \<noteq> nullptr \<and> (16 :: ptr) AND 3 = 0
   \<and> \<not> parent_is_index (set_parent 16 (fresh_item 7)) \<and> parent (set_parent 16 (fresh_item 7)) = 16"
  using tagged_parent_roundtrip [of 5 "fresh_item 7" 16]
  by (simp add: key_type_bits_def nullptr_def)

section \<open>Termination on sound links\<close>

text \<open>
  On a set of items with sound links every loop of the engine comes to an end and no
  null reference is followed: the next-item step, the search for a childless descendant,
  the insertion, and the removal of an item that is a secondary sibling, has another
  item in its ring or has no child return.
\<close>

lemma rd_Some: "p \<noteq> nullptr \<Longrightarrow> rd st p f = Some (f (st p))"
  by (simp add: rd_def)

lemma wr_Some: "p \<noteq> nullptr \<Longrightarrow> wr st p g = Some (st(p := g (st p)))"
  by (simp add: wr_def)



lemma nobble_descend_returns:
  assumes "nullptr \<notin> A"
    and "\<forall>p \<in> A. \<forall>right. child right (st p) \<noteq> nullptr \<longrightarrow>
           child right (st p) \<in> A \<and> is_primary_sibling (st (child right (st p)))"
    and "\<forall>p \<in> A. \<forall>right. child right (st p) \<noteq> nullptr \<longrightarrow>
           height (child right (st p)) < (height p :: nat)"
    and "q \<in> A" and "is_primary_sibling (st q)" and "height q < bound"
  shows "\<exists>c i. nobble_descend st d q j = Some (c, i) \<and> c \<in> A \<and> is_primary_sibling (st c)
           \<and> height c < bound"
  using assms(4,5,6)
proof (induction "height q" arbitrary: q j rule: less_induct)
  case less
  then have q: "q \<noteq> nullptr" using assms(1) by auto
  show ?case
  proof (cases "child d (st q) \<noteq> nullptr")
    case True
    with assms(2,3) less.prems have c: "child d (st q) \<in> A"
      "is_primary_sibling (st (child d (st q)))" "height (child d (st q)) < height q"
      by auto
    from less.hyps [OF c(3) c(1) c(2), of d] c(3) less.prems(3) obtain c' i where
      "nobble_descend st d (child d (st q)) d = Some (c', i)" "c' \<in> A"
      "is_primary_sibling (st c')" "height c' < bound"
      by (meson less_trans)
    with q True show ?thesis
      by (subst nobble_descend.simps) (auto simp: rd_Some)
  next
    case False
    note no_d = this
    show ?thesis
    proof (cases "child (\<not> d) (st q) \<noteq> nullptr")
      case True
      with assms(2,3) less.prems have c: "child (\<not> d) (st q) \<in> A"
        "is_primary_sibling (st (child (\<not> d) (st q)))" "height (child (\<not> d) (st q)) < height q"
        by auto
      from less.hyps [OF c(3) c(1) c(2), of "\<not> d"] c(3) less.prems(3) obtain c' i where
        "nobble_descend st d (child (\<not> d) (st q)) (\<not> d) = Some (c', i)" "c' \<in> A"
        "is_primary_sibling (st c')" "height c' < bound"
        by (meson less_trans)
      with q True no_d show ?thesis
        by (subst nobble_descend.simps) (auto simp: rd_Some)
    next
      case False
      with q no_d less.prems show ?thesis
        by (subst nobble_descend.simps) (auto simp: rd_Some)
    qed
  qed
qed








lemma trieinsert_loop_returns:
  assumes "nullptr \<notin> A"
    and "\<forall>p \<in> A. \<forall>right. child right (st p) \<noteq> nullptr \<longrightarrow> child right (st p) \<in> A"
    and "\<forall>p \<in> A. \<forall>right. child right (st p) \<noteq> nullptr \<longrightarrow>
           height (child right (st p)) < (height p :: nat)"
    and "r \<noteq> nullptr" and "node \<in> A"
  shows "\<exists>st'. trieinsert_loop st r node rkey keybit = Some st'"
  using assms(5)
proof (induction "height node" arbitrary: node keybit rule: less_induct)
  case less
  then have n: "node \<noteq> nullptr" using assms(1) by auto
  show ?case
  proof (cases "key (st node) = rkey")
    case True
    with n assms(4) show ?thesis
      by (subst trieinsert_loop.simps) (auto simp: rd_Some wr_Some)
  next
    case False
    define b where "b = (rkey AND drop_bit 1 keybit \<noteq> 0)"
    show ?thesis
    proof (cases "child b (st node) = nullptr")
      case True
      with n assms(4) False show ?thesis
        by (subst trieinsert_loop.simps) (auto simp: rd_Some wr_Some Let_def b_def)
    next
      case c: False
      with assms(2,3) less.prems have "child b (st node) \<in> A"
        "height (child b (st node)) < height node" by auto
      from less.hyps [OF this(2) this(1), of "drop_bit 1 keybit"] obtain st' where
        "trieinsert_loop st r (child b (st node)) rkey (drop_bit 1 keybit) = Some st'" by blast
      with n False c show ?thesis
        by (subst trieinsert_loop.simps) (auto simp: rd_Some Let_def b_def)
    qed
  qed
qed

lemma insert_returns:
  assumes "links_ok A st" and "p \<noteq> nullptr" and "p \<notin> A"
    and "\<forall>b. head_child h b \<noteq> nullptr \<longrightarrow> head_child h b \<in> A"
    and "bitwise_trie_size h \<noteq> bitwise_trie_max_size h"
  shows "\<exists>h' st'. bitwise_trie_insert h st p = Some (h', st', p)"
proof -
  from assms(1) obtain height :: "ptr \<Rightarrow> nat" where
    nn: "nullptr \<notin> A"
    and chi0: "\<forall>q \<in> A. \<forall>right. child right (st q) \<noteq> nullptr \<longrightarrow>
           child right (st q) \<in> A \<and> is_primary_sibling (st (child right (st q)))"
    and hgt: "\<forall>q \<in> A. \<forall>right. child right (st q) \<noteq> nullptr \<longrightarrow>
           height (child right (st q)) < height q"
    unfolding links_ok_def by blast
  from chi0 have chi: "\<forall>q \<in> A. \<forall>right. child right (st q) \<noteq> nullptr \<longrightarrow> child right (st q) \<in> A"
    by blast
  define st1 where "st1 = st(p := set_sibling True p (set_sibling False p
      (set_child True nullptr (set_child False nullptr (set_parent nullptr (st p))))))"
  have same: "st1 q = st q" if "q \<in> A" for q
    using that assms(3) by (auto simp: st1_def)
  have chi1: "\<forall>q \<in> A. \<forall>right. child right (st1 q) \<noteq> nullptr \<longrightarrow> child right (st1 q) \<in> A"
    using chi same by simp
  have hgt1: "\<forall>q \<in> A. \<forall>right. child right (st1 q) \<noteq> nullptr \<longrightarrow>
           height (child right (st1 q)) < height q"
    using hgt same by simp
  have lt: "(bitwise_trie_size h < bitwise_trie_max_size h) = True"
    and nw: "(head_size h + 1 < head_size h) = False"
    using assms(5)
    by (simp_all add: bitwise_trie_size_def bitwise_trie_max_size_def max_size_def
        word_order.not_eq_extremum no_wrap)
  have w1: "wr st p (set_parent nullptr) = Some (st(p := set_parent nullptr (st p)))"
    using assms(2) by (simp add: wr_Some)
  have w2: "wr (st(p := v)) p g = Some (st(p := g v))" for v g
    using assms(2) by (simp add: wr_Some)
  have st1: "st(p := set_sibling True p (set_sibling False p
      (set_child True nullptr (set_child False nullptr (set_parent nullptr (st p)))))) = st1"
    by (simp add: st1_def)
  have "\<exists>h' st'. trieinsert h st p = Some (h', st', True)"
  proof (cases "nullptr = head_child h (bitscanr (key (st p)))")
    case True
    then show ?thesis
      by (simp add: trieinsert_def rd_Some [OF assms(2)] wr_Some [OF assms(2)] nw Let_def
          cong: bind_eval_cong)
  next
    case False
    with assms(4) have "head_child h (bitscanr (key (st p))) \<in> A" by metis
    from trieinsert_loop_returns [OF nn chi1 hgt1 assms(2) this] obtain st' where
      "trieinsert_loop st1 p (head_child h (bitscanr (key (st p)))) (key (st p))
         (push_bit (bitscanr (key (st p))) 1) = Some st'" by blast
    with False show ?thesis
      by (simp add: trieinsert_def rd_Some [OF assms(2)] nw w1 w2 st1 Let_def
          cong: bind_eval_cong)
  qed
  then obtain h' st' where "trieinsert h st p = Some (h', st', True)" by blast
  then show ?thesis
    by (simp add: bitwise_trie_insert_def lt)
qed

lemma two_item_links: "links_ok {16, 32} two_item_store"
  unfolding links_ok_def
proof (intro conjI)
  show "\<exists>height :: ptr \<Rightarrow> nat. \<forall>p \<in> {16, 32}. \<forall>right. child right (two_item_store p) \<noteq> nullptr \<longrightarrow>
          height (child right (two_item_store p)) < height p"
    by (rule exI [of _ "\<lambda>p. if p = 16 then 1 else 0"])
      (simp add: two_item_store_def child_def nullptr_def)
  show "\<exists>depth :: ptr \<Rightarrow> nat. \<forall>p \<in> {16, 32}. is_primary_sibling (two_item_store p)
          \<and> \<not> parent_is_index (two_item_store p) \<longrightarrow> depth (parent (two_item_store p)) < depth p"
    by (rule exI [of _ "\<lambda>p. if p = 32 then 1 else 0"])
      (simp add: two_item_store_def parent_def parent_is_index_def)
  show "\<exists>ring :: ptr \<Rightarrow> nat. \<forall>p \<in> {16, 32}. is_secondary_sibling (two_item_store p) \<longrightarrow>
          ring (sibling True (two_item_store p)) < ring p"
    by (rule exI [of _ "\<lambda>p. 0"])
      (simp add: two_item_store_def is_secondary_sibling_def nullptr_def)
qed (simp_all add: two_item_store_def nullptr_def sibling_def child_def parent_def
    is_primary_sibling_def parent_is_index_def)

section \<open>Insertion at capacity\<close>

lemma trieinsert_ok:
  assumes "head_size h < max_size h" and "trieinsert h st p = Some (h', st', ok)"
  shows "ok \<and> p \<noteq> nullptr"
  using assms
  by (auto simp: trieinsert_def max_size_def no_wrap rd_def Let_def
      split: if_splits Option.bind_splits)

text \<open>
  C2. \<^verbatim>\<open>insert(item)\<close> returns the \<^verbatim>\<open>end()\<close> iterator if and only if the count is at its
  maximum (\<^verbatim>\<open>size() == max_size()\<close>); in that case it returns with the head (slots and
  count) and the whole store (the item's own four fields and every other item) exactly
  as they were, so the item is not attached. Below the maximum, inserting an item that
  is not yet attached into an index with sound links returns an iterator to the item.
\<close>

theorem insert_fails_iff_full:
  "((\<exists>h' st'. bitwise_trie_insert h st p = Some (h', st', bitwise_trie_end))
      \<longleftrightarrow> bitwise_trie_size h = bitwise_trie_max_size h)
   \<and> (bitwise_trie_size h = bitwise_trie_max_size h
      \<longrightarrow> bitwise_trie_insert h st p = Some (h, st, bitwise_trie_end))
   \<and> (bitwise_trie_size h \<noteq> bitwise_trie_max_size h \<and> links_ok A st
        \<and> p \<noteq> nullptr \<and> p \<notin> A
        \<and> (\<forall>b. head_child h b \<noteq> nullptr \<longrightarrow> head_child h b \<in> A)
      \<longrightarrow> (\<exists>h' st'. bitwise_trie_insert h st p = Some (h', st', p)))"
proof -
  have full: "bitwise_trie_insert h st p = Some (h, st, bitwise_trie_end)"
    if "bitwise_trie_size h = bitwise_trie_max_size h"
    using that by (simp add: bitwise_trie_insert_def)
  have notfull: "bitwise_trie_size h = bitwise_trie_max_size h"
    if "bitwise_trie_insert h st p = Some (h', st', bitwise_trie_end)" for h' st'
  proof (rule ccontr)
    assume "bitwise_trie_size h \<noteq> bitwise_trie_max_size h"
    then have lt: "head_size h < max_size h"
      by (simp add: bitwise_trie_size_def bitwise_trie_max_size_def max_size_def
          word_order.not_eq_extremum)
    with that obtain h'' st'' ok where ti: "trieinsert h st p = Some (h'', st'', ok)"
      and res: "(if ok then Some (h'', st'', p) else Some (h'', st'', bitwise_trie_end))
                 = Some (h', st', bitwise_trie_end)"
      by (auto simp: bitwise_trie_insert_def bitwise_trie_size_def bitwise_trie_max_size_def
          split: Option.bind_splits)
    from trieinsert_ok [OF lt ti] res show False
      by (simp add: bitwise_trie_end_def)
  qed
  show ?thesis using full notfull insert_returns [of A st p h] by blast
qed

theorem insert_fails_iff_full_witness:
  "bitwise_trie_size full_head = bitwise_trie_max_size full_head
   \<and> bitwise_trie_insert full_head two_item_store 48
       = Some (full_head, two_item_store, bitwise_trie_end)
   \<and> bitwise_trie_size two_item_head \<noteq> bitwise_trie_max_size two_item_head
   \<and> map_option (\<lambda>(h, st, it). (it, bitwise_trie_size h)) (bitwise_trie_insert two_item_head two_item_store 48)
       = Some (48, 3)
   \<and> bitwise_trie_insert two_item_head two_item_store 48
       \<noteq> Some (two_item_head, two_item_store, bitwise_trie_end)"
proof -
  have a: "bitwise_trie_size full_head = bitwise_trie_max_size full_head"
    by (simp add: model_defs)
  have b: "bitwise_trie_size two_item_head \<noteq> bitwise_trie_max_size two_item_head"
    by (simp add: model_defs)
  have c: "map_option (\<lambda>(h, st, it). (it, bitwise_trie_size h))
             (bitwise_trie_insert two_item_head two_item_store 48) = Some (48, 3)"
    by (simp add: model_defs bitscanr_def cong: bind_eval_cong)
  have d: "links_ok {16, 32} two_item_store \<and> (48 :: ptr) \<noteq> nullptr \<and> (48 :: ptr) \<notin> {16, 32}
      \<and> (\<forall>b. head_child two_item_head b \<noteq> nullptr \<longrightarrow> head_child two_item_head b \<in> {16, 32})"
    using two_item_links by (simp add: nullptr_def head_child_def two_item_head_def)
  from a b c d insert_fails_iff_full [of full_head two_item_store 48 "{16, 32}"]
    insert_fails_iff_full [of two_item_head two_item_store 48 "{16, 32}"]
  show ?thesis by blast
qed

section \<open>Clearing and copying the head\<close>

lemma fold_set_children:
  "trie_children (fold (\<lambda>n. head_set_child n (f n)) [0..<N] h) n
     = (if n < N then f n else trie_children h n)"
  by (induction N arbitrary: n) (auto simp: head_set_child_def)

lemma fold_set_children_nobbledir:
  "trie_nobbledir (fold (\<lambda>n. head_set_child n (f n)) [0..<N] h) = trie_nobbledir h"
  by (induction N) (auto simp: head_set_child_def)

text \<open>
  C8. \<^verbatim>\<open>clear()\<close> resets the head record to empty: afterwards \<^verbatim>\<open>size()\<close> is 0,
  \<^verbatim>\<open>empty()\<close> is true and every one of the 64 head child slots is null; the store of the
  items is returned as it was, so no field of any item is written.
\<close>

theorem clear_resets_head:
  "bitwise_trie_size (fst (bitwise_trie_clear h st)) = 0
   \<and> bitwise_trie_empty (fst (bitwise_trie_clear h st))
   \<and> (\<forall>n < key_type_bits. head_child (fst (bitwise_trie_clear h st)) n = nullptr)
   \<and> snd (bitwise_trie_clear h st) = st"
  by (simp add: bitwise_trie_clear_def bitwise_trie_size_def bitwise_trie_empty_def
      head_size_def set_size_def head_child_def fold_set_children)

theorem clear_resets_head_witness:
  "bitwise_trie_size two_item_head = 2 \<and> head_child two_item_head 2 = 16
   \<and> (2 :: nat) < key_type_bits
   \<and> bitwise_trie_size (fst (bitwise_trie_clear two_item_head two_item_store)) = 0
   \<and> head_child (fst (bitwise_trie_clear two_item_head two_item_store)) 2 = nullptr
   \<and> snd (bitwise_trie_clear two_item_head two_item_store) = two_item_store"
  using clear_resets_head [of two_item_head two_item_store]
  by (simp add: key_type_bits_def bitwise_trie_size_def head_size_def head_child_def
      two_item_head_def)

text \<open>
  C10. The copy constructor and the copy assignment are shallow: the head written
  receives the 64 child-slot references and the count of the head copied, so both heads
  refer to the same items; the store of the items is returned as it was; and the
  nobble-direction flag of the head written keeps its own value, whatever the flag of
  the head copied.
\<close>

theorem copy_is_shallow:
  "(\<forall>n < key_type_bits. head_child (fst (bitwise_trie_copy my other st)) n = head_child other n)
   \<and> head_size (fst (bitwise_trie_copy my other st)) = head_size other
   \<and> trie_nobbledir (fst (bitwise_trie_copy my other st)) = trie_nobbledir my
   \<and> snd (bitwise_trie_copy my other st) = st"
  by (simp add: bitwise_trie_copy_def head_size_def set_size_def head_child_def
      fold_set_children fold_set_children_nobbledir)

theorem copy_is_shallow_witness:
  "(2 :: nat) < key_type_bits
   \<and> head_child (fst (bitwise_trie_copy (empty_head\<lparr>trie_nobbledir := True\<rparr>) two_item_head two_item_store)) 2 = 16
   \<and> head_size (fst (bitwise_trie_copy (empty_head\<lparr>trie_nobbledir := True\<rparr>) two_item_head two_item_store)) = 2
   \<and> trie_nobbledir (fst (bitwise_trie_copy (empty_head\<lparr>trie_nobbledir := True\<rparr>) two_item_head two_item_store))
   \<and> \<not> trie_nobbledir two_item_head
   \<and> snd (bitwise_trie_copy (empty_head\<lparr>trie_nobbledir := True\<rparr>) two_item_head two_item_store) = two_item_store"
  using copy_is_shallow [of "empty_head\<lparr>trie_nobbledir := True\<rparr>" two_item_head two_item_store]
  by (simp add: key_type_bits_def head_size_def head_child_def two_item_head_def)

section \<open>Erasing\<close>



lemma erase_end_undefined: "bitwise_trie_erase NobbleDir h st bitwise_trie_end = None"
  by (simp add: bitwise_trie_erase_def trieremove_def rd_def bitwise_trie_end_def
      iterator_inc_def)

text \<open>
  C5 (the code departs from the claim). \<^verbatim>\<open>erase(k)\<close> is \<^verbatim>\<open>erase(find(k))\<close>. For a key that
  is not present \<^verbatim>\<open>find\<close> returns \<^verbatim>\<open>end()\<close>, and \<^verbatim>\<open>erase\<close> hands the null reference of that
  iterator to the removal, whose first statements read the key and the parent of the
  item: the call has no defined result. It is shown on the empty index and on the index
  holding the keys 6 and 4, for the absent key 5.
\<close>

theorem erase_absent_key_undefined:
  "bitwise_trie_find empty_head (keyed_store []) 5 = Some bitwise_trie_end
   \<and> bitwise_trie_erase_key 0 empty_head (keyed_store []) 5 = None
   \<and> bitwise_trie_find two_item_head two_item_store 5 = Some bitwise_trie_end
   \<and> rd two_item_store bitwise_trie_end key = None
   \<and> trieremove 0 two_item_head two_item_store bitwise_trie_end = None
   \<and> bitwise_trie_erase_key 0 two_item_head two_item_store 5 = None"
  by (simp add: model_defs cong: bind_eval_cong)

section \<open>Sibling rings\<close>

text \<open>
  C4 (the code departs from the claim). After two items with key 5 are inserted, and
  again after a third, \<^verbatim>\<open>size()\<close> is 2 and 3 but \<^verbatim>\<open>count(5)\<close> is 1: the splice of
  \<^verbatim>\<open>_trieinsert\<close> links the new item behind the tree node (\<^verbatim>\<open>sibling[0]\<close>) but leaves the
  \<^verbatim>\<open>sibling[1]\<close> of the tree node pointing at the tree node itself, so the walk of
  \<^verbatim>\<open>count\<close> returns at once and \<^verbatim>\<open>sibling[0]\<close> is not the reverse of \<^verbatim>\<open>sibling[1]\<close>.
\<close>

theorem count_of_repeated_key:
  "after_ops 0 [Insert 16 5, Insert 32 5]
     (\<lambda>h st. Some (bitwise_trie_size h, bitwise_trie_count h st 5,
        sibling True (st 16), sibling False (st 16))) = Some (2, Some 1, 16, 32)
   \<and> after_ops 0 [Insert 16 5, Insert 32 5, Insert 48 5]
     (\<lambda>h st. Some (bitwise_trie_size h, bitwise_trie_count h st 5,
        sibling True (st 16), sibling False (st 16))) = Some (3, Some 1, 16, 48)"
  by (simp add: model_defs cong: bind_eval_cong)

section \<open>Forward traversal\<close>

text \<open>
  C3 as stated fails: after inserting the keys 6 and 4, which share the highest set
  bit 2, the forward traversal yields 6 before 4.
\<close>

theorem branch_traversal_unsorted_counterexample:
  "branch_keys 2 two_item_head two_item_store = Some [6, 4]
   \<and> \<not> sorted_wrt (\<le>) [6, 4 :: key_type]"
  by (simp add: model_defs cong: bind_eval_cong)

lemma shape_root_nonnull: "shape_at st par t \<Longrightarrow> t \<noteq> Leaf \<Longrightarrow> root t \<noteq> nullptr"
  by (cases t) auto

lemma shape_root_mem: "t \<noteq> Leaf \<Longrightarrow> root t \<in> set (preorder t)"
  by (cases t) auto

lemma node_step:
  assumes "shape_at st par (Node p l r)" and "par \<noteq> nullptr"
  shows "triebranchnext st p =
     (if root l \<noteq> nullptr then Some (root l, nullptr)
      else if root r \<noteq> nullptr then Some (root r, nullptr)
      else trace_up_next st p)"
proof -
  from assms have p: "p \<noteq> nullptr" and prim: "is_primary_sibling (st p)"
    and s: "sibling True (st p) = p"
    and c: "child False (st p) = root l" "child True (st p) = root r"
    by (auto simp: is_primary_sibling_def parent_def)
  from p prim have "back_to_tree_node st p = Some p"
    by (rule back_to_tree_node_primary)
  with p prim s c show ?thesis
    by (simp add: triebranchnext_def rd_Some Let_def)
qed

lemma child_trace_up:
  assumes "shape_at st par (Node p l r)" and "c \<noteq> nullptr" and "parent (st c) = p"
  shows "trace_up_next st c =
     (if root l = c \<and> root r \<noteq> nullptr then Some (root r, c) else trace_up_next st p)"
proof -
  from assms have p: "p \<noteq> nullptr" "p AND 3 = 0"
    and ch: "child False (st p) = root l" "child True (st p) = root r"
    by auto
  from p(2) assms(3) have "\<not> parent_is_index (st c)"
    by (simp add: parent_is_index_def parent_def)
  with assms(2,3) p(1) ch show ?thesis
    by (subst trace_up_next.simps) (simp add: rd_Some)
qed

lemma branch_from_subtree:
  assumes "shape_at st par t" and "par \<noteq> nullptr" and "distinct (preorder t)"
    and "t \<noteq> Leaf"
    and "trace_up_next st (root t) = Some (k, tp)"
    and "branch_from st k = Some rest"
  shows "branch_from st (root t) = Some (preorder t @ rest)"
  using assms
proof (induction t arbitrary: par k tp rest)
  case Leaf
  then show ?case by simp
next
  case (Node p l r)
  from Node.prems have p: "p \<noteq> nullptr" by simp
  from Node.prems have sl: "shape_at st p l" and sr: "shape_at st p r"
    and dl: "distinct (preorder l)" and dr: "distinct (preorder r)"
    by auto
  note step = node_step [OF Node.prems(1,2)]
  have up: "trace_up_next st p = Some (k, tp)"
    using Node.prems(5) by simp
  have right: "branch_from st (root r) = Some (preorder r @ rest)" if "r \<noteq> Leaf"
  proof -
    from that sr have rn: "root r \<noteq> nullptr" by (auto dest: shape_root_nonnull)
    from that sr have rp: "parent (st (root r)) = p" by (cases r) auto
    have "root l \<noteq> root r"
    proof (cases "l = Leaf")
      case True
      with rn show ?thesis by simp
    next
      case False
      then have "root l \<in> set (preorder l)" by (rule shape_root_mem)
      moreover from that have "root r \<in> set (preorder r)" by (rule shape_root_mem)
      ultimately show ?thesis using Node.prems(3) by auto
    qed
    with child_trace_up [OF Node.prems(1) rn rp] up
    have "trace_up_next st (root r) = Some (k, tp)" by simp
    from Node.IH(2) [OF sr p dr that this Node.prems(6)] show ?thesis .
  qed
  show ?case
  proof (cases "l = Leaf")
    case lLeaf: True
    show ?thesis
    proof (cases "r = Leaf")
      case True
      with lLeaf step up have "triebranchnext st p = Some (k, tp)" by simp
      with p Node.prems(6) lLeaf True show ?thesis
        by (subst branch_from.simps) simp
    next
      case False
      with sr have rn: "root r \<noteq> nullptr" by (auto dest: shape_root_nonnull)
      with lLeaf step have "triebranchnext st p = Some (root r, nullptr)" by simp
      with p right [OF False] lLeaf show ?thesis
        by (subst branch_from.simps) simp
    qed
  next
    case lNode: False
    with sl have ln: "root l \<noteq> nullptr" by (auto dest: shape_root_nonnull)
    from lNode sl have lp: "parent (st (root l)) = p" by (cases l) auto
    from ln step have st1: "triebranchnext st p = Some (root l, nullptr)" by simp
    have "branch_from st (root l) = Some (preorder l @ preorder r @ rest)"
    proof (cases "r = Leaf")
      case True
      with child_trace_up [OF Node.prems(1) ln lp] up
      have "trace_up_next st (root l) = Some (k, tp)" by simp
      from Node.IH(1) [OF sl p dl lNode this Node.prems(6)] True show ?thesis by simp
    next
      case False
      with sr have rn: "root r \<noteq> nullptr" by (auto dest: shape_root_nonnull)
      with child_trace_up [OF Node.prems(1) ln lp]
      have "trace_up_next st (root l) = Some (root r, root l)" by simp
      from Node.IH(1) [OF sl p dl lNode this right [OF False]] show ?thesis .
    qed
    with p st1 show ?thesis
      by (subst branch_from.simps) simp
  qed
qed

lemma nat_bit_order:
  fixes a b :: nat
  assumes "a div 2 ^ Suc n = b div 2 ^ Suc n" and "even (a div 2 ^ n)" and "odd (b div 2 ^ n)"
  shows "a < b"
proof (rule ccontr)
  assume "\<not> a < b"
  then have le: "b div 2 ^ n \<le> a div 2 ^ n"
    by (simp add: div_le_mono)
  have half: "c div 2 ^ Suc n = c div 2 ^ n div 2" for c :: nat
    by (metis div_mult2_eq power_Suc2)
  from assms(2) have "a div 2 ^ n = 2 * (a div 2 ^ n div 2)"
    by simp
  moreover from assms(3) have "b div 2 ^ n = 2 * (b div 2 ^ n div 2) + 1"
    by (simp add: odd_two_times_div_two_succ)
  ultimately show False using assms(1) le unfolding half by linarith
qed

lemma word_bit_order:
  fixes x y :: "64 word"
  assumes "drop_bit (Suc n) x = drop_bit (Suc n) y" and "\<not> bit x n" and "bit y n"
  shows "x < y"
proof -
  from assms(1) have "drop_bit (Suc n) (unat x) = drop_bit (Suc n) (unat y)"
    by (metis unat_drop_bit_eq)
  then have "unat x div 2 ^ Suc n = unat y div 2 ^ Suc n"
    by (simp only: drop_bit_eq_div)
  moreover have "bit (unat w) n = bit w n" for w :: "64 word"
    by (simp add: bit_unsigned_iff)
  with assms(2,3) have "\<not> bit (unat x) n" and "bit (unat y) n"
    by simp_all
  then have "even (unat x div 2 ^ n)" and "odd (unat y div 2 ^ n)"
    by (simp_all add: bit_iff_odd)
  ultimately have "unat x < unat y" by (intro nat_bit_order [of _ n])
  then show ?thesis by (simp add: word_less_nat_alt)
qed

lemma keys_ok_ordered: "keys_ok st m t \<Longrightarrow> subtrees_ordered st t"
proof (induction t arbitrary: m)
  case Leaf
  then show ?case by simp
next
  case (Node p l r)
  show ?case
  proof (cases m)
    case 0
    with Node.prems show ?thesis by simp
  next
    case (Suc m')
    with Node.prems have
      l: "\<forall>x \<in> set (preorder l). drop_bit (Suc m') (key (st x)) = drop_bit (Suc m') (key (st p))
            \<and> \<not> bit (key (st x)) m'"
      and r: "\<forall>y \<in> set (preorder r). drop_bit (Suc m') (key (st y)) = drop_bit (Suc m') (key (st p))
            \<and> bit (key (st y)) m'"
      and kl: "keys_ok st m' l" and kr: "keys_ok st m' r"
      by (simp_all add: list_all_iff)
    have "key (st x) < key (st y)" if "x \<in> set (preorder l)" "y \<in> set (preorder r)" for x y
      using that l r by (intro word_bit_order [of m']) auto
    with Node.IH(1) [OF kl] Node.IH(2) [OF kr] show ?thesis
      by (simp add: list_all_iff)
  qed
qed

lemma branch_from_no_null: "branch_from st p = Some xs \<Longrightarrow> nullptr \<notin> set xs"
proof (induction xs arbitrary: p)
  case Nil
  then show ?case by simp
next
  case (Cons x xs)
  from Cons.prems have "p \<noteq> nullptr"
    by (subst (asm) branch_from.simps) auto
  with Cons.prems obtain n where "x = p" and "branch_from st n = Some xs"
    by (subst (asm) branch_from.simps) (auto split: Option.bind_splits)
  with Cons.IH \<open>p \<noteq> nullptr\<close> show ?case by auto
qed

lemma branch_from_steps:
  "branch_from st p = Some xs \<Longrightarrow> Suc i < length xs \<Longrightarrow> trienext h st (xs ! i) = Some (xs ! Suc i)"
proof (induction xs arbitrary: p i)
  case Nil
  then show ?case by simp
next
  case (Cons x xs)
  from Cons.prems(1) have p: "p \<noteq> nullptr"
    by (subst (asm) branch_from.simps) auto
  with Cons.prems(1) obtain n tp where x: "x = p" and n: "triebranchnext st p = Some (n, tp)"
    and rest: "branch_from st n = Some xs"
    by (subst (asm) branch_from.simps) (auto split: Option.bind_splits)
  from Cons.prems(2) obtain y ys where xs: "xs = y # ys" by (cases xs) auto
  with rest have "n \<noteq> nullptr"
    by (subst (asm) branch_from.simps) (auto split: if_splits)
  with rest xs have y: "y = n"
    by (subst (asm) branch_from.simps) (auto split: Option.bind_splits)
  show ?case
  proof (cases i)
    case 0
    with p x n y xs \<open>n \<noteq> nullptr\<close> show ?thesis
      by (simp add: trienext_def rd_Some)
  next
    case (Suc i')
    with Cons.prems(2) Cons.IH [OF rest, of i'] show ?thesis by simp
  qed
qed

text \<open>
  C3 amended. Let the branch below a head slot be a well-formed trie without secondary
  siblings whose keys sit where the descent of the insertion puts them. Then the forward
  traversal restricted to that branch is the pre-order of the trie: each item, then the
  items of its \<^verbatim>\<open>child[0]\<close> subtree, then those of its \<^verbatim>\<open>child[1]\<close> subtree, and the
  increment of an iterator steps along it. At every node each key of the \<^verbatim>\<open>child[0]\<close>
  subtree is smaller than each key of the \<^verbatim>\<open>child[1]\<close> subtree; the key of the node itself
  is not ordered against the keys below it, so the sequence is only approximately
  sorted.
\<close>

theorem branch_walk_is_preorder:
  assumes "shape_at st par t" and "t \<noteq> Leaf" and "parent_is_index (st (root t))"
    and "distinct (preorder t)" and "keys_ok st b t"
  shows "branch_from st (root t) = Some (preorder t)
     \<and> (\<forall>i. Suc i < length (preorder t)
           \<longrightarrow> trienext h st (preorder t ! i) = Some (preorder t ! Suc i))
     \<and> subtrees_ordered st t"
proof -
  from assms(1,2) have rn: "root t \<noteq> nullptr" by (rule shape_root_nonnull)
  from assms(1,2) have "parent (st (root t)) = par" by (cases t) auto
  with assms(3) have "par AND 3 = 3"
    by (simp add: parent_is_index_def parent_def)
  then have par: "par \<noteq> nullptr"
    by (auto simp: nullptr_def)
  from rn assms(3) have up: "trace_up_next st (root t) = Some (nullptr, root t)"
    by (subst trace_up_next.simps) (simp add: rd_Some)
  have "branch_from st nullptr = Some []"
    by (subst branch_from.simps) simp
  from branch_from_subtree [OF assms(1) par assms(4) assms(2) up this]
  have walk: "branch_from st (root t) = Some (preorder t)" by simp
  with branch_from_steps [OF walk] keys_ok_ordered [OF assms(5)] show ?thesis
    by blast
qed

theorem branch_walk_is_preorder_witness:
  "shape_at three_item_store 11 three_item_shape \<and> three_item_shape \<noteq> Leaf
   \<and> parent_is_index (three_item_store (root three_item_shape))
   \<and> distinct (preorder three_item_shape) \<and> keys_ok three_item_store 2 three_item_shape
   \<and> branch_from three_item_store 16 = Some [16, 32, 48]
   \<and> map (\<lambda>p. key (three_item_store p)) [16, 32, 48] = [6, 4, 7]
   \<and> trienext three_item_head three_item_store 16 = Some 32
   \<and> trienext three_item_head three_item_store 32 = Some 48
   \<and> subtrees_ordered three_item_store three_item_shape"
proof -
  have s: "shape_at three_item_store 11 three_item_shape"
    by (simp add: three_item_store_def three_item_shape_def nullptr_def parent_def
        sibling_def child_def)
  have n: "three_item_shape \<noteq> Leaf"
    by (simp add: three_item_shape_def)
  have i: "parent_is_index (three_item_store (root three_item_shape))"
    by (simp add: three_item_store_def three_item_shape_def parent_is_index_def)
  have d: "distinct (preorder three_item_shape)"
    by (simp add: three_item_shape_def)
  have "keys_ok three_item_store (Suc (Suc 0)) three_item_shape"
    by (simp add: three_item_store_def three_item_shape_def key_def)
  then have k: "keys_ok three_item_store 2 three_item_shape"
    by (simp add: numeral_2_eq_2)
  have m: "map (\<lambda>p. key (three_item_store p)) [16, 32, 48] = [6, 4, 7]"
    by (simp add: three_item_store_def key_def)
  from branch_walk_is_preorder [OF s n i d k, of three_item_head]
  have "branch_from three_item_store 16 = Some [16, 32, 48]"
    and "\<forall>i. Suc i < 3 \<longrightarrow> trienext three_item_head three_item_store ([16, 32, 48] ! i)
           = Some ([16, 32, 48] ! Suc i)"
    and "subtrees_ordered three_item_store three_item_shape"
    by (simp_all add: three_item_shape_def)
  moreover from this(2) have "trienext three_item_head three_item_store 16 = Some 32"
    and "trienext three_item_head three_item_store 32 = Some 48"
    by (auto dest: spec [of _ 0] spec [of _ 1])
  ultimately show ?thesis using s n i d k m by simp
qed

section \<open>Nearest find\<close>

lemma items_below_null: "items_below rounds st nullptr = []"
  by (cases rounds) simp_all

lemma triecfind_empty_slots:
  assumes "\<And>bitidx. head_child h bitidx = nullptr"
  shows "triecfind h st k rounds = nullptr"
  by (simp add: triecfind_def assms items_below_null)

lemma items_below_leaf:
  "node \<noteq> nullptr \<Longrightarrow> child False (st node) = nullptr \<Longrightarrow> child True (st node) = nullptr
   \<Longrightarrow> items_below rounds st node = [node]"
  by (cases rounds) (simp_all add: items_below_null)

lemma slots_from_1: "[Suc 0..<64] = [1, 2, 3] @ [4..<64]"
  by (simp add: upt_conv_Cons)

text \<open>The scenario of the spec: with the keys 1, 2, 4 and 8 in the index,
  \<^verbatim>\<open>nearest_find(3)\<close> is the item of key 4.\<close>

lemma nearest_find_scenario:
  "after_ops 0 [Insert 16 1, Insert 32 2, Insert 48 4, Insert 64 8]
     (\<lambda>h st. Some (bitwise_trie_nearest_find h st 3, key (st 48))) = Some (48, 4)"
proof -
  define h :: head where "h = \<lparr>trie_count = 4,
     trie_children = (\<lambda>n. if n = 0 then 16 else if n = 1 then 32 else if n = 2 then 48
                          else if n = 3 then 64 else 0),
     trie_nobbledir = False, nobbledir = False\<rparr>"
  define st :: store where "st = (\<lambda>p. (fresh_item (if p = 16 then 1 else if p = 32 then 2
        else if p = 48 then 4 else if p = 64 then 8 else 0))
      \<lparr>trie_parent := (if p = 16 then 3 else if p = 32 then 7 else if p = 48 then 11
                         else if p = 64 then 15 else 0),
       trie_sibling := (\<lambda>_. if p \<in> {16, 32, 48, 64} then p else 0)\<rparr>)"
  have run: "run_ops 0 empty_head (keyed_store [])
       [Insert 16 1, Insert 32 2, Insert 48 4, Insert 64 8] = Some (h, st)"
    by (simp add: model_defs bitscanr_1 bitscanr_2 bitscanr_8 h_def st_def fun_eq_iff
        cong: bind_eval_cong)
  have rest: "concat (map (\<lambda>bitidx. items_below 64 st (head_child h bitidx)) [4..<64]) = []"
    by (simp add: head_child_def h_def items_below_null [unfolded nullptr_def])
  have cands: "concat (map (\<lambda>bitidx. items_below 64 st (head_child h bitidx)) [Suc 0..<64])
      = [32, 48, 64]"
    unfolding slots_from_1 map_append concat_append rest
    by (simp add: head_child_def h_def items_below_leaf st_def fresh_item_def child_def nullptr_def)
  have "bitwise_trie_nearest_find h st 3 = 48"
    by (simp add: bitwise_trie_nearest_find_def triecfind_def bitscanr_3 key_type_bits_def
        unsigned_minus_1_eq_mask mask_eq_exp_minus_1 cands Let_def)
      (simp add: st_def key_def fresh_item_def nullptr_def)
  moreover have "key (st 48) = 4"
    by (simp add: st_def key_def fresh_item_def)
  ultimately show ?thesis
    unfolding after_ops_def run by simp
qed

text \<open>
  C1 (the code departs from the claim; \<^verbatim>\<open>_triecfind\<close> is modelled from the spec). Two
  items with key 5 are inserted and the first is erased: the second was never erased and
  \<^verbatim>\<open>size()\<close> is 1, but no head slot references an item any more, so \<^verbatim>\<open>nearest_find(5)\<close> is
  \<^verbatim>\<open>end()\<close>. The splice of \<^verbatim>\<open>_trieinsert\<close> leaves the \<^verbatim>\<open>sibling[1]\<close> of the first item pointing
  at itself, so the removal takes it for alone in its ring and empties the head slot
  instead of promoting the second item. The same happens when three items with key 5 are
  inserted and the first and the third are erased. Each result lists \<^verbatim>\<open>size()\<close>, the
  occupied head slots, \<^verbatim>\<open>nearest_find(5)\<close>, and the key and the next sibling of the item at
  address 32.
\<close>

theorem nearest_find_misses_present_item:
  "after_ops NobbleDir [Insert 16 5, Insert 32 5, Erase 16]
     (\<lambda>h st. Some (bitwise_trie_size h,
        filter (\<lambda>bitidx. head_child h bitidx \<noteq> nullptr) [0..<key_type_bits],
        bitwise_trie_nearest_find h st 5, key (st 32), sibling True (st 32)))
     = Some (1, [], bitwise_trie_end, 5, 16)
   \<and> after_ops NobbleDir [Insert 16 5, Insert 32 5, Insert 48 5, Erase 16, Erase 48]
     (\<lambda>h st. Some (bitwise_trie_size h,
        filter (\<lambda>bitidx. head_child h bitidx \<noteq> nullptr) [0..<key_type_bits],
        bitwise_trie_nearest_find h st 5, key (st 32), sibling True (st 32)))
     = Some (1, [], bitwise_trie_end, 5, 16)"
  by (simp add: model_defs triecfind_empty_slots cong: bind_eval_cong)

section \<open>Nobble direction\<close>


end
